theory Spec2Isabelle
  imports Complex_Main "HOL-Library.Sublist"
begin

section \<open>Python values that the handler of \<^verbatim>\<open>main.py\<close> sees\<close>

text \<open>
  A Python \<^verbatim>\<open>str\<close> is a sequence of Unicode code points, so it is a list of naturals here:
  \<^verbatim>\<open>content[:1000]\<close> counts code points, \<^verbatim>\<open>strip()\<close> removes Unicode white space, and the
  fallback text holds an en dash (U+2013). \<open>str\<close> embeds an ASCII literal.
\<close>

type_synonym pystr = "nat list"

definition str :: "string \<Rightarrow> pystr" where
  "str s = map of_char s"

text \<open>
  A Python \<^verbatim>\<open>float\<close>: \<open>Finite q\<close> is the binary64 number nearest to the rational \<open>q\<close>
  (every finite float is itself a rational), which is zero exactly when \<open>q\<close> is no larger
  in magnitude than half the smallest subnormal, \<open>2 ^ 1075\<close> in the denominator.
\<close>

datatype pyfloat = Finite rat | PosInf | NegInf | NaN

text \<open>
  What \<^verbatim>\<open>json.loads\<close> and Flask's \<^verbatim>\<open>get_json\<close> build: \<^verbatim>\<open>None\<close>, \<^verbatim>\<open>bool\<close>, \<^verbatim>\<open>int\<close>,
  \<^verbatim>\<open>float\<close>, \<^verbatim>\<open>str\<close>, \<^verbatim>\<open>list\<close> and \<^verbatim>\<open>dict\<close> (keys in insertion order).
\<close>

datatype json =
    JNull
  | JBool bool
  | JInt int
  | JFloat pyfloat
  | JStr pystr
  | JArr "json list"
  | JObj "(pystr \<times> json) list"

text \<open>Python's truth value, as \<^verbatim>\<open>not x\<close> and \<^verbatim>\<open>if x\<close> test it.\<close>

fun float_is_zero :: "pyfloat \<Rightarrow> bool" where
  "float_is_zero (Finite q) = (\<bar>q\<bar> \<le> 1 / 2 ^ 1075)"
| "float_is_zero PosInf = False"
| "float_is_zero NegInf = False"
| "float_is_zero NaN = False"

fun truthy :: "json \<Rightarrow> bool" where
  "truthy JNull = False"
| "truthy (JBool b) = b"
| "truthy (JInt i) = (i \<noteq> 0)"
| "truthy (JFloat f) = (\<not> float_is_zero f)"
| "truthy (JStr s) = (s \<noteq> [])"
| "truthy (JArr xs) = (xs \<noteq> [])"
| "truthy (JObj kvs) = (kvs \<noteq> [])"

text \<open>
  Exceptions are values. The constructor is the class that an \<^verbatim>\<open>except\<close> clause matches,
  the argument is \<^verbatim>\<open>str(e)\<close>. \<open>RaisedException\<close> is any other subclass of \<^verbatim>\<open>Exception\<close>
  (what the BigQuery and Vertex AI clients raise, a \<^verbatim>\<open>RecursionError\<close> of the decoder).
\<close>

datatype py_exception =
    JSONDecodeError pystr
  | AttributeError pystr
  | TypeError pystr
  | KeyError pystr
  | IndexError pystr
  | RaisedException pystr

fun exception_str :: "py_exception \<Rightarrow> pystr" where
  "exception_str (JSONDecodeError m) = m"
| "exception_str (AttributeError m) = m"
| "exception_str (TypeError m) = m"
| "exception_str (KeyError m) = m"
| "exception_str (IndexError m) = m"
| "exception_str (RaisedException m) = m"

fun type_name :: "json \<Rightarrow> pystr" where
  "type_name JNull = str ''NoneType''"
| "type_name (JBool b) = str ''bool''"
| "type_name (JInt i) = str ''int''"
| "type_name (JFloat f) = str ''float''"
| "type_name (JStr s) = str ''str''"
| "type_name (JArr xs) = str ''list''"
| "type_name (JObj kvs) = str ''dict''"

text \<open>
  \<^verbatim>\<open>request_json.get(key, default)\<close>: a dictionary lookup with a default; on any other
  value (a list, a string, a number, \<^verbatim>\<open>True\<close>) the attribute \<^verbatim>\<open>get\<close> does not exist.
\<close>

fun dict_get :: "json \<Rightarrow> pystr \<Rightarrow> json \<Rightarrow> py_exception + json" where
  "dict_get (JObj kvs) k d = Inr (case map_of kvs k of Some v \<Rightarrow> v | None \<Rightarrow> d)"
| "dict_get v k d =
     Inl (AttributeError
       ([39] @ type_name v @ [39] @ str '' object has no attribute '' @ [39] @ str ''get'' @ [39]))"

section \<open>String operations of Python used by the handler\<close>

text \<open>The code points for which \<^verbatim>\<open>str.isspace\<close> holds; \<^verbatim>\<open>strip()\<close> removes them at both ends.\<close>

definition is_space :: "nat \<Rightarrow> bool" where
  "is_space c \<longleftrightarrow>
     (9 \<le> c \<and> c \<le> 13) \<or> (28 \<le> c \<and> c \<le> 32) \<or> c = 133 \<or> c = 160 \<or> c = 5760 \<or>
     (8192 \<le> c \<and> c \<le> 8202) \<or> c = 8232 \<or> c = 8233 \<or> c = 8239 \<or> c = 8287 \<or> c = 12288"

definition py_strip :: "pystr \<Rightarrow> pystr" where
  "py_strip s = rev (dropWhile is_space (rev (dropWhile is_space s)))"

definition startswith :: "pystr \<Rightarrow> pystr \<Rightarrow> bool" where
  "startswith s p = prefix p s"

definition endswith :: "pystr \<Rightarrow> pystr \<Rightarrow> bool" where
  "endswith s p = prefix (rev p) (rev s)"

text \<open>
  \<^verbatim>\<open>s[i:j]\<close> with Python's rules: a negative bound counts from the end, and both bounds are
  clamped to the length. \<open>None\<close> is an omitted bound.
\<close>

definition slice_bound :: "nat \<Rightarrow> int \<Rightarrow> nat" where
  "slice_bound n i = (if i < 0 then nat (max 0 (i + int n)) else min (nat i) n)"

definition py_slice :: "'a list \<Rightarrow> int option \<Rightarrow> int option \<Rightarrow> 'a list" where
  "py_slice s i j =
     (let n = length s;
          lo = (case i of None \<Rightarrow> 0 | Some a \<Rightarrow> slice_bound n a);
          hi = (case j of None \<Rightarrow> n | Some b \<Rightarrow> slice_bound n b)
      in take (hi - lo) (drop lo s))"

text \<open>\<^verbatim>\<open>s.find(c)\<close> and \<^verbatim>\<open>s.rfind(c)\<close> for a single character: the index, or -1.\<close>

definition py_find :: "pystr \<Rightarrow> nat \<Rightarrow> int" where
  "py_find s c = (if c \<in> set s then int (length (takeWhile (\<lambda>x. x \<noteq> c) s)) else - 1)"

definition py_rfind :: "pystr \<Rightarrow> nat \<Rightarrow> int" where
  "py_rfind s c =
     (if c \<in> set s then int (length s) - 1 - int (length (takeWhile (\<lambda>x. x \<noteq> c) (rev s)))
      else - 1)"

text \<open>
  \<^verbatim>\<open>s.split(sep)\<close>: the pieces between the occurrences of \<open>sep\<close>, found from the left
  without overlap. Python refuses an empty separator; the handler's is the fence.
\<close>

fun cons_head :: "'a \<Rightarrow> 'a list list \<Rightarrow> 'a list list" where
  "cons_head c [] = [[c]]"
| "cons_head c (seg # segs) = (c # seg) # segs"

function py_split :: "pystr \<Rightarrow> pystr \<Rightarrow> pystr list" where
  "py_split [] sep = [[]]"
| "py_split (c # cs) sep =
     (if sep \<noteq> [] \<and> prefix sep (c # cs) then [] # py_split (drop (length sep) (c # cs)) sep
      else cons_head c (py_split cs sep))"
  by pat_completeness auto
termination
  by (relation "measure (\<lambda>(s, sep). length s)") auto

text \<open>\<^verbatim>\<open>xs[1]\<close>: the second element, or an \<^verbatim>\<open>IndexError\<close>.\<close>

fun index1 :: "'a list \<Rightarrow> py_exception + 'a" where
  "index1 (x # y # ys) = Inr y"
| "index1 xs = Inl (IndexError (str ''list index out of range''))"

section \<open>Cleaning the model's text (lines 133 to 148)\<close>

definition fence :: pystr where
  "fence = str ''```''"

definition lbrace :: nat where
  "lbrace = 123"

definition rbrace :: nat where
  "rbrace = 125"

text \<open>
  \<^verbatim>\<open>
  if result_text.startswith('```'):
      result_text = result_text.split('```')[1]
      if result_text.startswith('json'):
          result_text = result_text[4:]
      result_text = result_text.strip()
  if result_text.endswith('```'):
      result_text = result_text[:-3].strip()
  \<close>
\<close>

definition remove_code_blocks :: "pystr \<Rightarrow> py_exception + pystr" where
  "remove_code_blocks result_text =
     (case (if startswith result_text fence
            then (case index1 (py_split result_text fence) of
                    Inl e \<Rightarrow> Inl e
                  | Inr t \<Rightarrow>
                      Inr (py_strip (if startswith t (str ''json'') then py_slice t (Some 4) None else t)))
            else Inr result_text) of
        Inl e \<Rightarrow> Inl e
      | Inr t \<Rightarrow> Inr (if endswith t fence then py_strip (py_slice t None (Some (- 3))) else t))"

text \<open>
  \<^verbatim>\<open>
  if '{' in result_text and '}' in result_text:
      start = result_text.find('{')
      end = result_text.rfind('}') + 1
      result_text = result_text[start:end]
  \<close>
\<close>

definition extract_json :: "pystr \<Rightarrow> pystr" where
  "extract_json result_text =
     (if lbrace \<in> set result_text \<and> rbrace \<in> set result_text
      then (let start = py_find result_text lbrace;
                end = py_rfind result_text rbrace + 1
            in py_slice result_text (Some start) (Some end))
      else result_text)"

definition clean_response :: "pystr \<Rightarrow> py_exception + pystr" where
  "clean_response text =
     (case remove_code_blocks (py_strip text) of
        Inl e \<Rightarrow> Inl e
      | Inr t \<Rightarrow> Inr (extract_json t))"

section \<open>The request, the collaborators and the response\<close>

text \<open>
  The route admits \<^verbatim>\<open>POST\<close> and \<^verbatim>\<open>OPTIONS\<close> only. \<open>json_body\<close> is the body as Flask parsed
  it, \<open>None\<close> when there is no body that parses as JSON; \<^verbatim>\<open>get_json(silent=True)\<close> then
  returns \<^verbatim>\<open>None\<close>, which is also what the body \<^verbatim>\<open>null\<close> parses to.
\<close>

datatype http_method = POST | OPTIONS

record request =
  req_method :: http_method
  json_body :: "json option"

definition get_json :: "request \<Rightarrow> json" where
  "get_json req = (case json_body req of None \<Rightarrow> JNull | Some v \<Rightarrow> v)"

text \<open>
  A result set of the analytical store is an iterator: it yields rows and then either ends
  or raises. The list comprehension \<^verbatim>\<open>[dict(row) for row in results]\<close> runs it to its end.
\<close>

datatype 'row row_iterator = RowIterator "'row list" "py_exception option"

fun materialize :: "'row row_iterator \<Rightarrow> py_exception + 'row list" where
  "materialize (RowIterator rows None) = Inr rows"
| "materialize (RowIterator rows (Some e)) = Inl e"

text \<open>
  Everything outside the handler: the BigQuery client (its constructor may raise, a query
  returns an iterator or raises), the model (\<^verbatim>\<open>generate_content(prompt).text\<close>), and the
  library functions \<^verbatim>\<open>json.dumps(rows, default=str, indent=2)\<close>, \<^verbatim>\<open>json.loads\<close> and \<^verbatim>\<open>str\<close>
  on a value that is not a string.
\<close>

record 'row environment =
  bigquery_client :: "py_exception option"
  query_result :: "pystr \<Rightarrow> py_exception + 'row row_iterator"
  generate_content :: "pystr \<Rightarrow> py_exception + pystr"
  json_dumps :: "'row list \<Rightarrow> pystr"
  json_loads :: "pystr \<Rightarrow> py_exception + json"
  py_str :: "json \<Rightarrow> pystr"

text \<open>The calls to the collaborators that a run makes, in order.\<close>

datatype event = BigQueryClient | Query pystr | GenerateContent pystr

text \<open>
  The handler returns \<^verbatim>\<open>(body, status, headers)\<close>. The body is the empty string or
  \<^verbatim>\<open>jsonify\<close> of a dictionary; \<open>headers\<close> are the ones the handler passes itself.
\<close>

datatype http_body = Text pystr | Jsonify json

record response =
  body :: http_body
  status :: nat
  headers :: "(pystr \<times> pystr) list"

definition preflight_headers :: "(pystr \<times> pystr) list" where
  "preflight_headers =
     [(str ''Access-Control-Allow-Origin'', str ''*''),
      (str ''Access-Control-Allow-Methods'', str ''POST, OPTIONS''),
      (str ''Access-Control-Allow-Headers'', str ''Content-Type''),
      (str ''Access-Control-Max-Age'', str ''3600'')]"

definition cors_headers :: "(pystr \<times> pystr) list" where
  "cors_headers =
     [(str ''Access-Control-Allow-Origin'', str ''*''),
      (str ''Content-Type'', str ''application/json'')]"

definition error_body :: "pystr \<Rightarrow> http_body" where
  "error_body message =
     Jsonify (JObj [(str ''status'', JStr (str ''error'')), (str ''message'', JStr message)])"

definition success_body :: "json \<Rightarrow> http_body" where
  "success_body result_json =
     Jsonify (JObj [(str ''status'', JStr (str ''success'')), (str ''data'', result_json)])"

definition health_check :: response where
  "health_check =
     \<lparr>body = Jsonify (JObj [(str ''status'', JStr (str ''healthy''))]), status = 200, headers = []\<rparr>"

section \<open>The handler \<^verbatim>\<open>get_publishing_recommendation\<close>\<close>

definition query_subscription :: pystr where
  \<open>query_subscription = str ''\<newline>            SELECT *\<newline>            FROM `ncau-data-nprod-aitrain.article_data.subscription_summary_small`\<newline>        ''\<close>

definition query_seasonality :: pystr where
  \<open>query_seasonality = str ''\<newline>            SELECT *\<newline>            FROM `ncau-data-nprod-aitrain.article_data.seasonality_summary_small`\<newline>        ''\<close>

text \<open>The fixed text of the prompt's f-string, cut at its five replacement fields.\<close>

definition prompt_title :: pystr where
  \<open>prompt_title = str ''\<newline>You are an expert publishing strategist analyzing article engagement data.\<newline>\<newline>ARTICLE TO ANALYZE:\<newline>Title: ''\<close>

definition prompt_content :: pystr where
  \<open>prompt_content = str ''\<newline>Content: ''\<close>

definition prompt_region :: pystr where
  \<open>prompt_region = str ''\<newline>Target Region: ''\<close>

definition prompt_dataset1 :: pystr where
  \<open>prompt_dataset1 = str ''\<newline>\<newline>DATASET 1 - Subscription Behaviour (user engagement history):\<newline>''\<close>

definition prompt_dataset2 :: pystr where
  \<open>prompt_dataset2 = str ''\<newline>\<newline>DATASET 2 - Seasonality Reference (topic timing performance):\<newline>''\<close>

definition prompt_task :: pystr where
  \<open>prompt_task = str ''\<newline>\<newline>YOUR TASK:\<newline>Analyze the article topic and determine the BEST day + time to publish based on:\<newline>1. Historical engagement patterns from the datasets\<newline>2. Seasonality trends for similar content\<newline>3. Day-of-week and time-of-day performance\<newline>\<newline>CRITICAL: Respond with ONLY valid JSON in this EXACT format (no markdown, no code blocks):\<newline>\<newline>{\<newline>    "description": "<p><strong>[CATEGORY]</strong> shows the highest engagement on <strong>[DAY]</strong>. Additionally, [context from dataset]. Based on these trends, the following publishing times carry the highest relevancy:</p><div style='margin-top:20px; padding:15px; background:#fff; border:1px solid #ddd;'><p><strong>Option 1</strong> '' @ [8211] @ str '' <em>[Day: Date]</em> @ <strong>[Time]</strong><br>Relevancy Score: <strong>[X]%</strong></p><p style='margin-top:15px;'><strong>Option 2</strong> '' @ [8211] @ str '' <em>[Day: Date]</em> @ <strong>[Time]</strong><br>Relevancy Score: <strong>[Y]%</strong></p></div>",\<newline>    "insights": [\<newline>        "Data-driven insight 1",\<newline>        "Data-driven insight 2",\<newline>    ]\<newline>}\<newline>Ensure you keep the data as consice as possible. each data-driven insight should contain max 20 words. The description should contain max 100 words.\<newline>Respond with ONLY the JSON object. No other text.\<newline>''\<close>

text \<open>
  A replacement field \<^verbatim>\<open>{x}\<close> of an f-string is \<^verbatim>\<open>format(x, '')\<close>: the string itself, and
  \<^verbatim>\<open>str(x)\<close> for any other value.
\<close>

definition format_value :: "'row environment \<Rightarrow> json \<Rightarrow> pystr" where
  "format_value env v = (case v of JStr s \<Rightarrow> s | _ \<Rightarrow> py_str env v)"

text \<open>
  \<^verbatim>\<open>content[:1000]\<close>: a slice of a string or of a list. A number or a boolean is not
  subscriptable; a dictionary looks the slice up as a key (CPython 3.12 and later; before,
  the slice is unhashable and the error is a \<^verbatim>\<open>TypeError\<close>).
\<close>

fun content_1000 :: "json \<Rightarrow> py_exception + json" where
  "content_1000 (JStr s) = Inr (JStr (py_slice s None (Some 1000)))"
| "content_1000 (JArr xs) = Inr (JArr (py_slice xs None (Some 1000)))"
| "content_1000 (JObj kvs) = Inl (KeyError (str ''slice(None, 1000, None)''))"
| "content_1000 v =
     Inl (TypeError ([39] @ type_name v @ [39] @ str '' object is not subscriptable''))"

definition build_prompt ::
  "'row environment \<Rightarrow> json \<Rightarrow> json \<Rightarrow> json \<Rightarrow> 'row list \<Rightarrow> 'row list \<Rightarrow> py_exception + pystr"
where
  "build_prompt env title content region subs_data season_data =
     (case content_1000 content of
        Inl e \<Rightarrow> Inl e
      | Inr c \<Rightarrow>
          Inr (prompt_title @ format_value env title @
               prompt_content @ format_value env c @
               prompt_region @ format_value env region @
               prompt_dataset1 @ json_dumps env (py_slice subs_data None (Some 20)) @
               prompt_dataset2 @ json_dumps env (py_slice season_data None (Some 20)) @
               prompt_task))"

text \<open>The fallback response of lines 158 to 161.\<close>

definition fallback_description :: pystr where
  \<open>fallback_description = str ''<p><strong>General Content</strong> shows consistent engagement. Based on historical patterns:</p><div style='margin-top:20px; padding:15px; background:#fff; border:1px solid #ddd;'><p><strong>Option 1</strong> '' @ [8211] @ str '' <em>Monday: 9th December 2025</em> @ <strong>9:00 AM</strong><br>Relevancy Score: <strong>85%</strong></p><p style='margin-top:15px;'><strong>Option 2</strong> '' @ [8211] @ str '' <em>Thursday: 12th December 2025</em> @ <strong>2:00 PM</strong><br>Relevancy Score: <strong>80%</strong></p></div>''\<close>

definition fallback :: json where
  "fallback =
     JObj [(str ''description'', JStr fallback_description),
           (str ''insights'',
            JArr [JStr (str ''Historical patterns analyzed''),
                  JStr (str ''Weekday mornings recommended''),
                  JStr (str ''Thursday afternoons show engagement'')])]"

text \<open>
  \<^verbatim>\<open>
  try:
      result_json = json.loads(result_text)
  except json.JSONDecodeError as e:
      result_json = { fallback }
  \<close>
  Any other exception of the decoder is not caught here.
\<close>

definition parse_or_fallback :: "'row environment \<Rightarrow> pystr \<Rightarrow> py_exception + json" where
  "parse_or_fallback env result_text =
     (case json_loads env result_text of
        Inr v \<Rightarrow> Inr v
      | Inl (JSONDecodeError m) \<Rightarrow> Inr fallback
      | Inl e \<Rightarrow> Inl e)"

text \<open>
  A run of a part of the handler: what it returns or raises, and the calls it made.
  \<open>bind_run\<close> is sequencing: an exception ends the run, the calls add up.
\<close>

type_synonym 'a run = "(py_exception + 'a) \<times> event list"

definition returns :: "'a \<Rightarrow> 'a run" where
  "returns x = (Inr x, [])"

definition local_step :: "py_exception + 'a \<Rightarrow> 'a run" where
  "local_step r = (r, [])"

definition call :: "event \<Rightarrow> py_exception + 'a \<Rightarrow> 'a run" where
  "call ev r = (r, [ev])"

definition bind_run :: "'a run \<Rightarrow> ('a \<Rightarrow> 'b run) \<Rightarrow> 'b run" where
  "bind_run m f =
     (case m of
        (Inl e, tr) \<Rightarrow> (Inl e, tr)
      | (Inr x, tr) \<Rightarrow> (case f x of (r, tr') \<Rightarrow> (r, tr @ tr')))"

definition run_query :: "'row environment \<Rightarrow> pystr \<Rightarrow> py_exception + 'row list" where
  "run_query env query =
     (case query_result env query of Inl e \<Rightarrow> Inl e | Inr results \<Rightarrow> materialize results)"

definition error_400 :: "pystr \<Rightarrow> response" where
  "error_400 message = \<lparr>body = error_body message, status = 400, headers = []\<rparr>"

definition error_500 :: "pystr \<Rightarrow> response" where
  "error_500 message = \<lparr>body = error_body message, status = 500, headers = cors_headers\<rparr>"

definition success_200 :: "json \<Rightarrow> response" where
  "success_200 result_json =
     \<lparr>body = success_body result_json, status = 200, headers = cors_headers\<rparr>"

definition preflight_response :: response where
  "preflight_response = \<lparr>body = Text [], status = 204, headers = preflight_headers\<rparr>"

text \<open>Lines 66 to 167: from the BigQuery client to the success response.\<close>

definition recommend ::
  "'row environment \<Rightarrow> json \<Rightarrow> json \<Rightarrow> json \<Rightarrow> response run"
where
  "recommend env title content region =
     bind_run (call BigQueryClient (case bigquery_client env of Some e \<Rightarrow> Inl e | None \<Rightarrow> Inr ()))
       (\<lambda>client.
     bind_run (call (Query query_subscription) (run_query env query_subscription))
       (\<lambda>subs_data.
     bind_run (call (Query query_seasonality) (run_query env query_seasonality))
       (\<lambda>season_data.
     bind_run (local_step (build_prompt env title content region subs_data season_data))
       (\<lambda>prompt.
     bind_run (call (GenerateContent prompt) (generate_content env prompt))
       (\<lambda>text.
     bind_run (local_step (clean_response text))
       (\<lambda>result_text.
     bind_run (local_step (parse_or_fallback env result_text))
       (\<lambda>result_json.
     returns (success_200 result_json))))))))"

text \<open>Lines 49 to 64, the body of the \<^verbatim>\<open>try\<close> up to the validation, then the rest.\<close>

definition try_body :: "'row environment \<Rightarrow> request \<Rightarrow> response run" where
  "try_body env req =
     (let request_json = get_json req in
      if \<not> truthy request_json then returns (error_400 (str ''No JSON data provided''))
      else
        bind_run (local_step (dict_get request_json (str ''title'') (JStr []))) (\<lambda>title.
        bind_run (local_step (dict_get request_json (str ''content'') (JStr []))) (\<lambda>content.
        bind_run (local_step (dict_get request_json (str ''region'') (JStr (str ''Australia''))))
          (\<lambda>region.
        if \<not> truthy title \<or> \<not> truthy content
        then returns (error_400 (str ''Title and content are required''))
        else recommend env title content region))))"

text \<open>
  \<^verbatim>\<open>
  except json.JSONDecodeError as e:
      return jsonify({"status": "error", "message": f"Failed to parse AI response: {str(e)}"}), 500, headers
  except Exception as e:
      return jsonify({"status": "error", "message": str(e)}), 500, headers
  \<close>
\<close>

fun except_clauses :: "py_exception \<Rightarrow> response" where
  "except_clauses (JSONDecodeError m) = error_500 (str ''Failed to parse AI response: '' @ m)"
| "except_clauses e = error_500 (exception_str e)"

text \<open>
  The whole handler: the preflight answer, else the \<^verbatim>\<open>try\<close> with its two \<^verbatim>\<open>except\<close> clauses.
\<close>

definition get_publishing_recommendation ::
  "'row environment \<Rightarrow> request \<Rightarrow> response \<times> event list"
where
  "get_publishing_recommendation env req =
     (if req_method req = OPTIONS then (preflight_response, [])
      else
        (case try_body env req of
           (Inr resp, tr) \<Rightarrow> (resp, tr)
         | (Inl e, tr) \<Rightarrow> (except_clauses e, tr)))"

section \<open>A reference decoder for \<^verbatim>\<open>json.loads\<close>\<close>

text \<open>
  The handler takes \<^verbatim>\<open>json.loads\<close> from its environment. For runs on concrete texts the
  environment needs a decoder: this one follows the grammar of CPython's \<^verbatim>\<open>json\<close> scanner
  (strict strings, \<^verbatim>\<open>NaN\<close> and \<^verbatim>\<open>Infinity\<close> accepted, the last of two equal keys wins).
  It reads tokens from left to right, each scan returning how many characters it used,
  as the scanner's \<^verbatim>\<open>end\<close> index does. CPython's resource limits (nesting depth, digits of
  an integer), where it raises other exceptions, and the text of the error message are
  left out.
\<close>

definition is_digit :: "nat \<Rightarrow> bool" where
  "is_digit c \<longleftrightarrow> 48 \<le> c \<and> c \<le> 57"

definition digits_value :: "pystr \<Rightarrow> nat" where
  "digits_value ds = foldl (\<lambda>acc d. 10 * acc + (d - 48)) 0 ds"

definition hex_digit :: "nat \<Rightarrow> nat option" where
  "hex_digit c =
     (if 48 \<le> c \<and> c \<le> 57 then Some (c - 48)
      else if 65 \<le> c \<and> c \<le> 70 then Some (c - 55)
      else if 97 \<le> c \<and> c \<le> 102 then Some (c - 87)
      else None)"

fun decode_uXXXX :: "pystr \<Rightarrow> nat option" where
  "decode_uXXXX [a, b, c, d] =
     (case (hex_digit a, hex_digit b, hex_digit c, hex_digit d) of
        (Some x, Some y, Some z, Some w) \<Rightarrow> Some (((x * 16 + y) * 16 + z) * 16 + w)
      | _ \<Rightarrow> None)"
| "decode_uXXXX s = None"

text \<open>The one-letter escapes: quote, backslash, slash, b, f, n, r, t.\<close>

definition backslash :: "nat \<Rightarrow> nat option" where
  "backslash c =
     (if c = 34 then Some 34 else if c = 92 then Some 92 else if c = 47 then Some 47
      else if c = 98 then Some 8 else if c = 102 then Some 12 else if c = 110 then Some 10
      else if c = 114 then Some 13 else if c = 116 then Some 9 else None)"

definition more :: "nat \<Rightarrow> nat \<Rightarrow> (pystr \<times> nat) option \<Rightarrow> (pystr \<times> nat) option" where
  "more c n r = (case r of None \<Rightarrow> None | Some (s, k) \<Rightarrow> Some (c # s, n + k))"

text \<open>
  The text after an opening quote: the decoded string and the number of characters up
  to and with the closing quote. A high surrogate followed by an escaped low surrogate
  is one code point.
\<close>

fun scanstring :: "pystr \<Rightarrow> (pystr \<times> nat) option" where
  "scanstring [] = None"
| "scanstring (c # cs) =
     (if c = 34 then Some ([], 1)
      else if c = 92 then
        (case cs of
           [] \<Rightarrow> None
         | e # es \<Rightarrow>
             if e = 117 then
               (case decode_uXXXX (take 4 es) of
                  None \<Rightarrow> None
                | Some uni \<Rightarrow>
                    if 55296 \<le> uni \<and> uni \<le> 56319 \<and> take 2 (drop 4 es) = [92, 117] then
                      (case decode_uXXXX (take 4 (drop 6 es)) of
                         None \<Rightarrow> None
                       | Some uni2 \<Rightarrow>
                           if 56320 \<le> uni2 \<and> uni2 \<le> 57343
                           then more (65536 + (uni - 55296) * 1024 + (uni2 - 56320)) 12
                                  (scanstring (drop 10 es))
                           else more uni 6 (scanstring (drop 4 es)))
                    else more uni 6 (scanstring (drop 4 es)))
             else
               (case backslash e of
                  None \<Rightarrow> None
                | Some ch \<Rightarrow> more ch 2 (scanstring es)))
      else if c < 32 then None
      else more c 1 (scanstring cs))"

text \<open>
  The number pattern \<^verbatim>\<open>(-?(?:0|[1-9][0-9]*))(\.[0-9]+)?([eE][-+]?[0-9]+)?\<close>: an integer
  when there is neither a fraction nor an exponent, else a float.
\<close>

definition scale10 :: "rat \<Rightarrow> int \<Rightarrow> rat" where
  "scale10 q e = (if 0 \<le> e then q * 10 ^ nat e else q / 10 ^ nat (- e))"

definition match_number :: "pystr \<Rightarrow> (json \<times> nat) option" where
  "match_number s =
     (let neg = (take 1 s = [45]);
          s1 = (if neg then drop 1 s else s);
          int_digits = (if take 1 s1 = [48] then [48] else takeWhile is_digit s1);
          s2 = drop (length int_digits) s1;
          frac_digits = (if take 1 s2 = [46] then takeWhile is_digit (drop 1 s2) else []);
          s3 = (if frac_digits = [] then s2 else drop (1 + length frac_digits) s2);
          e = (take 1 s3 = [101] \<or> take 1 s3 = [69]);
          sign = (if take 1 (drop 1 s3) = [43] \<or> take 1 (drop 1 s3) = [45] then 1 else 0);
          exp_digits = (if e then takeWhile is_digit (drop (1 + sign) s3) else []);
          used = (if neg then 1 else 0) + length int_digits +
                 (if frac_digits = [] then 0 else 1 + length frac_digits) +
                 (if exp_digits = [] then 0 else 1 + sign + length exp_digits);
          mantissa = of_nat (digits_value (int_digits @ frac_digits)) / 10 ^ length frac_digits;
          exponent = (if take 1 (drop 1 s3) = [45] then - int (digits_value exp_digits)
                      else int (digits_value exp_digits))
      in if int_digits = [] then None
         else if frac_digits = [] \<and> exp_digits = []
         then Some (JInt (if neg then - int (digits_value int_digits) else int (digits_value int_digits)),
                    used)
         else Some (JFloat (Finite (scale10 (if neg then - mantissa else mantissa) exponent)),
                    used))"

datatype token =
    LBrace | RBrace | LBracket | RBracket | Comma | Colon
  | StringToken pystr
  | ValueToken json
  | BadToken

text \<open>The token at the head of a text that does not start with white space, and its length.\<close>

definition scan_once :: "pystr \<Rightarrow> token \<times> nat" where
  "scan_once s =
     (let nextchar = take 1 s in
      if nextchar = [34] then
        (case scanstring (drop 1 s) of
           None \<Rightarrow> (BadToken, 1)
         | Some (v, n) \<Rightarrow> (StringToken v, 1 + n))
      else if nextchar = [123] then (LBrace, 1)
      else if nextchar = [125] then (RBrace, 1)
      else if nextchar = [91] then (LBracket, 1)
      else if nextchar = [93] then (RBracket, 1)
      else if nextchar = [44] then (Comma, 1)
      else if nextchar = [58] then (Colon, 1)
      else if take 4 s = str ''null'' then (ValueToken JNull, 4)
      else if take 4 s = str ''true'' then (ValueToken (JBool True), 4)
      else if take 5 s = str ''false'' then (ValueToken (JBool False), 5)
      else
        (case match_number s of
           Some (v, n) \<Rightarrow> (ValueToken v, n)
         | None \<Rightarrow>
             if take 3 s = str ''NaN'' then (ValueToken (JFloat NaN), 3)
             else if take 8 s = str ''Infinity'' then (ValueToken (JFloat PosInf), 8)
             else if take 9 s = str ''-Infinity'' then (ValueToken (JFloat NegInf), 9)
             else (BadToken, 1)))"

definition is_json_space :: "nat \<Rightarrow> bool" where
  "is_json_space c \<longleftrightarrow> c = 32 \<or> c = 9 \<or> c = 10 \<or> c = 13"

text \<open>
  The tokens of a text; \<open>skip\<close> characters at the head belong to the token before. The
  list ends at the first place where no token starts.
\<close>

fun tokens :: "nat \<Rightarrow> pystr \<Rightarrow> token list" where
  "tokens skip [] = []"
| "tokens (Suc skip) (c # cs) = tokens skip cs"
| "tokens 0 (c # cs) =
     (if is_json_space c then tokens 0 cs
      else (case scan_once (c # cs) of
              (BadToken, n) \<Rightarrow> [BadToken]
            | (t, n) \<Rightarrow> t # tokens (n - 1) cs))"

text \<open>
  The containers that are open, innermost first: the elements of an array so far, or the
  pairs of an object so far and the key whose value is being read.
\<close>

datatype frame = ArrayFrame "json list" | ObjectFrame "(pystr \<times> json) list" "pystr option"

datatype expect = Value | ValueOrClose | Key | KeyOrClose | ColonNext | CommaOrClose | End json

fun dict_set :: "pystr \<Rightarrow> json \<Rightarrow> (pystr \<times> json) list \<Rightarrow> (pystr \<times> json) list" where
  "dict_set k v [] = [(k, v)]"
| "dict_set k v (p # ps) = (if fst p = k then (k, v) # ps else p # dict_set k v ps)"

text \<open>A finished value goes into the innermost open container, or is the result.\<close>

fun finish :: "json \<Rightarrow> frame list \<Rightarrow> (frame list \<times> expect) option" where
  "finish v [] = Some ([], End v)"
| "finish v (ArrayFrame elems # st) = Some (ArrayFrame (elems @ [v]) # st, CommaOrClose)"
| "finish v (ObjectFrame pairs (Some k) # st) =
     Some (ObjectFrame (dict_set k v pairs) None # st, CommaOrClose)"
| "finish v (ObjectFrame pairs None # st) = None"

fun start_value :: "token \<Rightarrow> frame list \<Rightarrow> (frame list \<times> expect) option" where
  "start_value LBracket st = Some (ArrayFrame [] # st, ValueOrClose)"
| "start_value LBrace st = Some (ObjectFrame [] None # st, KeyOrClose)"
| "start_value (StringToken s) st = finish (JStr s) st"
| "start_value (ValueToken v) st = finish v st"
| "start_value t st = None"

fun step :: "frame list \<Rightarrow> expect \<Rightarrow> token \<Rightarrow> (frame list \<times> expect) option" where
  "step st (End v) t = None"
| "step st Value t = start_value t st"
| "step (ArrayFrame elems # st) ValueOrClose RBracket = finish (JArr elems) st"
| "step st ValueOrClose t = start_value t st"
| "step (ObjectFrame pairs k # st) KeyOrClose RBrace = finish (JObj pairs) st"
| "step (ObjectFrame pairs k # st) KeyOrClose (StringToken s) =
     Some (ObjectFrame pairs (Some s) # st, ColonNext)"
| "step (ObjectFrame pairs k # st) Key (StringToken s) =
     Some (ObjectFrame pairs (Some s) # st, ColonNext)"
| "step st ColonNext Colon = Some (st, Value)"
| "step (ArrayFrame elems # st) CommaOrClose Comma = Some (ArrayFrame elems # st, Value)"
| "step (ArrayFrame elems # st) CommaOrClose RBracket = finish (JArr elems) st"
| "step (ObjectFrame pairs k # st) CommaOrClose Comma = Some (ObjectFrame pairs k # st, Key)"
| "step (ObjectFrame pairs k # st) CommaOrClose RBrace = finish (JObj pairs) st"
| "step st ex t = None"

fun run_tokens :: "frame list \<Rightarrow> expect \<Rightarrow> token list \<Rightarrow> json option" where
  "run_tokens st ex [] = (case ex of End v \<Rightarrow> Some v | _ \<Rightarrow> None)"
| "run_tokens st ex (t # ts) =
     (case step st ex t of None \<Rightarrow> None | Some (st', ex') \<Rightarrow> run_tokens st' ex' ts)"

definition reference_loads :: "pystr \<Rightarrow> py_exception + json" where
  "reference_loads s =
     (if take 1 s = [65279] then Inl (JSONDecodeError [])
      else (case run_tokens [] Value (tokens 0 s) of
              None \<Rightarrow> Inl (JSONDecodeError [])
            | Some v \<Rightarrow> Inr v))"

section \<open>An environment for runs on concrete inputs\<close>

text \<open>
  A row is the text that \<^verbatim>\<open>json.dumps\<close> writes for its dictionary one level deep, so that
  the list of rows is laid out as \<^verbatim>\<open>indent=2\<close> does. The store returns the two given
  result sets, the model answers every prompt with the given text, the decoder is the
  reference decoder. The requests of the examples have strings in their fields, so
  \<^verbatim>\<open>str\<close> of another value is never asked for.
\<close>

fun join :: "pystr \<Rightarrow> pystr list \<Rightarrow> pystr" where
  "join sep [] = []"
| "join sep [x] = x"
| "join sep (x # y # ys) = x @ sep @ join sep (y # ys)"

definition dumps_rows :: "pystr list \<Rightarrow> pystr" where
  "dumps_rows rows =
     (if rows = [] then str ''[]''
      else str ''[\<newline>  '' @ join (str '',\<newline>  '') rows @ str ''\<newline>]'')"

definition example_environment :: "pystr list \<Rightarrow> pystr list \<Rightarrow> pystr \<Rightarrow> pystr environment" where
  "example_environment subs season text =
     \<lparr>bigquery_client = None,
      query_result = (\<lambda>query. if query = query_subscription then Inr (RowIterator subs None)
                               else Inr (RowIterator season None)),
      generate_content = (\<lambda>prompt. Inr text),
      json_dumps = dumps_rows,
      json_loads = reference_loads,
      py_str = (\<lambda>v. [])\<rparr>"

definition post :: "json \<Rightarrow> request" where
  "post v = \<lparr>req_method = POST, json_body = Some v\<rparr>"

section \<open>The preflight request\<close>

text \<open>
  Claim C9. An \<^verbatim>\<open>OPTIONS\<close> request is answered with status 204, an empty body and the
  headers that allow every origin to \<^verbatim>\<open>POST\<close> and to cache the answer for 3600 seconds.
  The answer holds for every body and every environment, and the run makes no call:
  nothing is validated, queried or generated.
\<close>

theorem preflight_options:
  "get_publishing_recommendation env (req\<lparr>req_method := OPTIONS\<rparr>) = (preflight_response, []) \<and>
   body preflight_response = Text [] \<and> status preflight_response = 204 \<and>
   map_of (headers preflight_response) (str ''Access-Control-Allow-Origin'') = Some (str ''*'') \<and>
   map_of (headers preflight_response) (str ''Access-Control-Allow-Methods'') =
     Some (str ''POST, OPTIONS'') \<and>
   map_of (headers preflight_response) (str ''Access-Control-Max-Age'') = Some (str ''3600'')"
  by (simp add: get_publishing_recommendation_def preflight_response_def preflight_headers_def
      str_def)

section \<open>Validation of the request\<close>

text \<open>
  Claim C10. A \<^verbatim>\<open>POST\<close> request with no body that parses as JSON, or with a body whose
  value is falsy (the empty object, the empty array, 0, \<^verbatim>\<open>false\<close>, \<^verbatim>\<open>null\<close>), is answered
  with status 400 and the message "No JSON data provided", which is not the message of
  the check of title and content; no field is looked at and no call is made.
\<close>

theorem no_json_data:
  assumes "req_method req = POST"
    and "json_body req = None \<or> (\<exists>v. json_body req = Some v \<and> \<not> truthy v)"
  shows "get_publishing_recommendation env req = (error_400 (str ''No JSON data provided''), []) \<and>
         status (error_400 (str ''No JSON data provided'')) = 400 \<and>
         error_400 (str ''No JSON data provided'') \<noteq> error_400 (str ''Title and content are required'')"
proof -
  from assms(2) have "\<not> truthy (get_json req)"
    by (auto simp: get_json_def)
  then have "try_body env req = (Inr (error_400 (str ''No JSON data provided'')), [])"
    by (simp add: try_body_def returns_def)
  with assms(1) show ?thesis
    by (simp add: get_publishing_recommendation_def error_400_def error_body_def str_def)
qed

theorem no_json_data_witness:
  "get_publishing_recommendation (example_environment [] [] []) (post (JObj [])) =
     (error_400 (str ''No JSON data provided''), []) \<and>
   get_publishing_recommendation (example_environment [] [] []) (post (JArr [])) =
     (error_400 (str ''No JSON data provided''), []) \<and>
   get_publishing_recommendation (example_environment [] [] []) (post (JInt 0)) =
     (error_400 (str ''No JSON data provided''), []) \<and>
   get_publishing_recommendation (example_environment [] [] []) (post (JBool False)) =
     (error_400 (str ''No JSON data provided''), []) \<and>
   get_publishing_recommendation (example_environment [] [] []) (post JNull) =
     (error_400 (str ''No JSON data provided''), []) \<and>
   get_publishing_recommendation (example_environment [] [] [])
     \<lparr>req_method = POST, json_body = None\<rparr> = (error_400 (str ''No JSON data provided''), [])"
  using no_json_data [of "post (JObj [])" "example_environment [] [] []"]
    no_json_data [of "post (JArr [])" "example_environment [] [] []"]
    no_json_data [of "post (JInt 0)" "example_environment [] [] []"]
    no_json_data [of "post (JBool False)" "example_environment [] [] []"]
    no_json_data [of "post JNull" "example_environment [] [] []"]
    no_json_data [of "\<lparr>req_method = POST, json_body = None\<rparr>" "example_environment [] [] []"]
  by (simp add: post_def)

end
